theory Spec2Isabelle
  imports Main "HOL-Library.AList" "HOL-Library.Multiset"
begin

section \<open>The Quick Fit allocator of MIniProject.py\<close>

text \<open>
  The class \<open>QuickFit\<close> keeps two Python dictionaries: \<open>memory_blocks\<close>, from a block
  size to the list of free block names of that size, and \<open>allocated_processes\<close>, from a
  process identifier to the block it holds and that block's size. A Python dictionary
  iterates in insertion order, and \<open>get_memory_state\<close> iterates over both, so each
  dictionary is an association list with the entries in insertion order:
  \<^item> \<open>k in d\<close> is \<open>map_of d k \<noteq> None\<close> and \<open>d[k]\<close> is the value \<open>map_of d k\<close> holds;
  \<^item> \<open>d[k] = v\<close> is \<open>AList.update k v d\<close>: the entry of \<open>k\<close> is replaced where it
    stands, and a new key is appended at the end;
  \<^item> \<open>del d[k]\<close> is \<open>AList.delete k d\<close>.
  The lists of block names are values: every size class has a list of its own, as in
  the dictionary the program builds in \<open>QuickFitGUI.__init__\<close>. Sizes are Python
  integers (\<open>int\<close>), process identifiers and block names are strings.
\<close>

subsection \<open>Python's rendering of values in an f-string\<close>

definition digit :: "nat \<Rightarrow> char" where
  "digit d = ''0123456789'' ! d"

fun str_nat :: "nat \<Rightarrow> string" where
  "str_nat n = (if n < 10 then [digit n] else str_nat (n div 10) @ [digit (n mod 10)])"

declare str_nat.simps [simp del]

definition str_int :: "int \<Rightarrow> string" where
  \<comment> \<open>\<open>str(i)\<close> of a Python integer: decimal digits, a minus sign when negative.
      The interpreter's bound on the number of digits of one conversion (4300 by
      default) is left out: \<open>QuickFitGUI.allocate_memory\<close> gets the size from \<open>int\<close> of
      the text typed, which is under the same bound.\<close>
  "str_int i = (if i < 0 then CHR ''-'' # str_nat (nat (- i)) else str_nat (nat i))"

definition newline :: char where
  "newline = CHR 0x0A"

fun join :: "string \<Rightarrow> string list \<Rightarrow> string" where
  "join sep [] = []"
| "join sep [x] = x"
| "join sep (x # y # ys) = x @ sep @ join sep (y # ys)"

definition repr_list :: "(string \<Rightarrow> string) \<Rightarrow> string list \<Rightarrow> string" where
  \<comment> \<open>\<open>str\<close> of a Python list: the \<open>repr\<close> of each element, separated by a comma and a
      space, in square brackets. \<open>repr_str\<close> is Python's built-in \<open>repr\<close> on strings
      (quoting and escaping), which the program does not define: it is a parameter.\<close>
  "repr_list repr_str blocks = ''['' @ join '', '' (map repr_str blocks) @ '']''"

definition repr_plain :: "string \<Rightarrow> string" where
  \<comment> \<open>what \<open>repr\<close> returns for a string of printable characters with no quote and no
      backslash in it, such as a block name of the program: the string in single quotes\<close>
  "repr_plain x = [CHR 0x27] @ x @ [CHR 0x27]"

subsection \<open>The state\<close>

record allocation =
  block :: string
  size_kb :: int

record quickfit =
  memory_blocks :: "(int \<times> string list) list"
  allocated_processes :: "(string \<times> allocation) list"

definition init :: "(int \<times> string list) list \<Rightarrow> quickfit" where
  \<comment> \<open>\<open>QuickFit.__init__\<close>\<close>
  "init blocks = \<lparr>memory_blocks = blocks, allocated_processes = []\<rparr>"

subsection \<open>allocate\<close>

definition allocated_msg :: "string \<Rightarrow> string \<Rightarrow> int \<Rightarrow> string" where
  "allocated_msg process_id allocated_block sz =
     ''Process '' @ process_id @ '' allocated to '' @ allocated_block
       @ '' ('' @ str_int sz @ '' KB).''"

definition no_exact_block_msg :: "string \<Rightarrow> int \<Rightarrow> string" where
  "no_exact_block_msg process_id sz =
     ''No exact block available for Process '' @ process_id
       @ '' requiring '' @ str_int sz @ '' KB.''"

definition allocate :: "quickfit \<Rightarrow> string \<Rightarrow> int \<Rightarrow> (bool \<times> string) \<times> quickfit" where
  "allocate s process_id sz =
     (case map_of (memory_blocks s) sz of
        Some (allocated_block # rest) \<Rightarrow>
          ((True, allocated_msg process_id allocated_block sz),
           s\<lparr>memory_blocks := AList.update sz rest (memory_blocks s),
             allocated_processes :=
               AList.update process_id \<lparr>block = allocated_block, size_kb = sz\<rparr>
                 (allocated_processes s)\<rparr>)
      | _ \<Rightarrow> ((False, no_exact_block_msg process_id sz), s))"

subsection \<open>deallocate\<close>

definition no_allocation_msg :: "string \<Rightarrow> string" where
  "no_allocation_msg process_id = ''No allocation found for Process '' @ process_id @ ''.''"

definition deallocated_msg :: "string \<Rightarrow> int \<Rightarrow> string" where
  "deallocated_msg block_name block_size =
     ''Block '' @ block_name @ '' ('' @ str_int block_size @ '' KB) deallocated.''"

definition deallocate :: "quickfit \<Rightarrow> string \<Rightarrow> (bool \<times> string) \<times> quickfit" where
  "deallocate s process_id =
     (case map_of (allocated_processes s) process_id of
        None \<Rightarrow> ((False, no_allocation_msg process_id), s)
      | Some allocation \<Rightarrow>
          (let block_size = size_kb allocation;
               block_name = block allocation;
               pool = (case map_of (memory_blocks s) block_size of
                         Some blocks \<Rightarrow>
                           AList.update block_size (blocks @ [block_name]) (memory_blocks s)
                       | None \<Rightarrow> AList.update block_size [block_name] (memory_blocks s))
           in ((True, deallocated_msg block_name block_size),
               s\<lparr>memory_blocks := pool,
                 allocated_processes := AList.delete process_id (allocated_processes s)\<rparr>)))"

subsection \<open>get_memory_state\<close>

definition blocks_line :: "(string \<Rightarrow> string) \<Rightarrow> int \<times> string list \<Rightarrow> string" where
  "blocks_line repr_str item =
     str_int (fst item) @ '' KB Blocks: '' @ repr_list repr_str (snd item) @ [newline]"

definition process_line :: "string \<times> allocation \<Rightarrow> string" where
  "process_line item =
     ''Process '' @ fst item @ '': '' @ block (snd item)
       @ '' ('' @ str_int (size_kb (snd item)) @ '' KB)'' @ [newline]"

definition get_memory_state :: "(string \<Rightarrow> string) \<Rightarrow> quickfit \<Rightarrow> string \<times> quickfit" where
  \<comment> \<open>The two loops append one line per entry to the accumulator \<open>state\<close>; the object
      itself is only read.\<close>
  "get_memory_state repr_str s =
     (let state = ''Available Memory Blocks:'' @ [newline];
          state = foldl (\<lambda>state item. state @ blocks_line repr_str item) state (memory_blocks s);
          state = state @ [newline] @ ''Allocated Processes:'' @ [newline];
          state = foldl (\<lambda>state item. state @ process_line item) state (allocated_processes s)
      in (state, s))"

subsection \<open>Sequences of calls\<close>

datatype call = Allocate string int | Deallocate string

fun step :: "quickfit \<Rightarrow> call \<Rightarrow> quickfit" where
  "step s (Allocate process_id sz) = snd (allocate s process_id sz)"
| "step s (Deallocate process_id) = snd (deallocate s process_id)"

definition run :: "quickfit \<Rightarrow> call list \<Rightarrow> quickfit" where
  "run s calls = foldl step s calls"

subsection \<open>Where the blocks are\<close>

definition free_blocks :: "quickfit \<Rightarrow> string list" where
  \<comment> \<open>every occurrence of a block name in a free list, class after class\<close>
  "free_blocks s = concat (map snd (memory_blocks s))"

definition bound_blocks :: "quickfit \<Rightarrow> string list" where
  \<comment> \<open>the block of every binding\<close>
  "bound_blocks s = map (\<lambda>item. block (snd item)) (allocated_processes s)"

definition all_blocks :: "quickfit \<Rightarrow> string list" where
  "all_blocks s = free_blocks s @ bound_blocks s"

definition sizes_known :: "quickfit \<Rightarrow> bool" where
  \<comment> \<open>the size of every binding is a key of \<open>memory_blocks\<close>\<close>
  "sizes_known s \<longleftrightarrow>
     (\<forall>item \<in> set (allocated_processes s). map_of (memory_blocks s) (size_kb (snd item)) \<noteq> None)"

fun no_overwrite :: "quickfit \<Rightarrow> call list \<Rightarrow> bool" where
  \<comment> \<open>no call of the sequence is an \<open>allocate\<close> that succeeds for a process that is
      bound at that moment\<close>
  "no_overwrite s [] = True"
| "no_overwrite s (Allocate process_id sz # calls) =
     ((fst (fst (allocate s process_id sz)) \<longrightarrow> map_of (allocated_processes s) process_id = None)
      \<and> no_overwrite (snd (allocate s process_id sz)) calls)"
| "no_overwrite s (Deallocate process_id # calls) =
     no_overwrite (snd (deallocate s process_id)) calls"

fun orphans :: "quickfit \<Rightarrow> call list \<Rightarrow> string list" where
  \<comment> \<open>the blocks whose binding a later successful \<open>allocate\<close> for the same process
      replaced, in the order of the calls\<close>
  "orphans s [] = []"
| "orphans s (Allocate process_id sz # calls) =
     (case map_of (allocated_processes s) process_id of
        Some held \<Rightarrow> if fst (fst (allocate s process_id sz)) then [block held] else []
      | None \<Rightarrow> [])
     @ orphans (snd (allocate s process_id sz)) calls"
| "orphans s (Deallocate process_id # calls) = orphans (snd (deallocate s process_id)) calls"

section \<open>Single calls\<close>

lemma allocate_Some_Cons:
  "map_of (memory_blocks s) sz = Some (b # bs) \<Longrightarrow>
   allocate s process_id sz =
     ((True, allocated_msg process_id b sz),
      s\<lparr>memory_blocks := AList.update sz bs (memory_blocks s),
        allocated_processes :=
          AList.update process_id \<lparr>block = b, size_kb = sz\<rparr> (allocated_processes s)\<rparr>)"
  by (simp add: allocate_def)

lemma allocate_None:
  "map_of (memory_blocks s) sz = None \<Longrightarrow>
   allocate s process_id sz = ((False, no_exact_block_msg process_id sz), s)"
  by (simp add: allocate_def)

lemma allocate_Some_Nil:
  "map_of (memory_blocks s) sz = Some [] \<Longrightarrow>
   allocate s process_id sz = ((False, no_exact_block_msg process_id sz), s)"
  by (simp add: allocate_def)

lemma allocate_ok_iff:
  "fst (fst (allocate s process_id sz)) \<longleftrightarrow> (\<exists>b bs. map_of (memory_blocks s) sz = Some (b # bs))"
  by (auto simp: allocate_def split: option.splits list.splits)

lemma deallocate_None:
  "map_of (allocated_processes s) process_id = None \<Longrightarrow>
   deallocate s process_id = ((False, no_allocation_msg process_id), s)"
  by (simp add: deallocate_def)

lemma deallocate_Some:
  "map_of (allocated_processes s) process_id = Some a \<Longrightarrow>
   deallocate s process_id =
     ((True, deallocated_msg (block a) (size_kb a)),
      s\<lparr>memory_blocks :=
          AList.update (size_kb a)
            ((case map_of (memory_blocks s) (size_kb a) of None \<Rightarrow> [] | Some blocks \<Rightarrow> blocks)
               @ [block a])
            (memory_blocks s),
        allocated_processes := AList.delete process_id (allocated_processes s)\<rparr>)"
  by (simp add: deallocate_def Let_def split: option.splits)

lemma deallocate_ok_iff:
  "fst (fst (deallocate s process_id)) \<longleftrightarrow> map_of (allocated_processes s) process_id \<noteq> None"
  by (auto simp: deallocate_def Let_def split: option.splits)

lemma update_new_key:
  "map_of al k = None \<Longrightarrow> AList.update k v al = al @ [(k, v)]"
  by (induction al) (auto split: if_splits)

lemma foldl_append_lines:
  "foldl (\<lambda>state item. state @ f item) acc items = acc @ concat (map f items)"
  by (induction items arbitrary: acc) simp_all

section \<open>Blocks are moved, not copied\<close>

lemma mset_free_update:
  "map_of al k = Some old \<Longrightarrow>
   mset (concat (map snd (AList.update k v al))) + mset old = mset (concat (map snd al)) + mset v"
  by (induction al) (auto split: if_splits)

lemma mset_bound_update:
  "map_of al k = Some old \<Longrightarrow>
   mset (map f (AList.update k v al)) + {#f (k, old)#} = mset (map f al) + {#f (k, v)#}"
  by (induction al) (auto split: if_splits)

lemma mset_bound_delete:
  "distinct (map fst al) \<Longrightarrow> map_of al k = Some old \<Longrightarrow>
   mset (map f (AList.delete k al)) + {#f (k, old)#} = mset (map f al)"
proof (induction al)
  case Nil
  then show ?case by simp
next
  case (Cons x al)
  show ?case
  proof (cases "fst x = k")
    case True
    with Cons.prems have "k \<notin> fst ` set al" and "x = (k, old)"
      by (auto simp: prod_eq_iff)
    then show ?thesis
      by simp
  next
    case False
    with Cons show ?thesis
      by auto
  qed
qed

lemma allocate_blocks_fresh:
  assumes "map_of (memory_blocks s) sz = Some (b # bs)"
    and "map_of (allocated_processes s) p = None"
  shows "mset (all_blocks (snd (allocate s p sz))) = mset (all_blocks s)"
proof -
  have "mset (free_blocks (snd (allocate s p sz))) + {#b#} = mset (free_blocks s)"
    using mset_free_update [OF assms(1), of bs]
    by (simp add: allocate_Some_Cons [OF assms(1)] free_blocks_def)
  moreover have "bound_blocks (snd (allocate s p sz)) = bound_blocks s @ [b]"
    by (simp add: allocate_Some_Cons [OF assms(1)] bound_blocks_def update_new_key [OF assms(2)])
  ultimately show ?thesis
    by (simp add: all_blocks_def)
qed

lemma allocate_blocks_overwrite:
  assumes "map_of (memory_blocks s) sz = Some (b # bs)"
    and "map_of (allocated_processes s) p = Some a"
  shows "mset (all_blocks (snd (allocate s p sz))) + {#block a#} = mset (all_blocks s)"
proof -
  let ?s' = "snd (allocate s p sz)"
  have f: "mset (free_blocks ?s') + {#b#} = mset (free_blocks s)"
    using mset_free_update [OF assms(1), of bs]
    by (simp add: allocate_Some_Cons [OF assms(1)] free_blocks_def)
  have g: "mset (bound_blocks ?s') + {#block a#} = mset (bound_blocks s) + {#b#}"
    using mset_bound_update [OF assms(2), of "\<lambda>item. block (snd item)" "\<lparr>block = b, size_kb = sz\<rparr>"]
    by (simp add: allocate_Some_Cons [OF assms(1)] bound_blocks_def)
  have "mset (all_blocks ?s') + {#block a#}
      = mset (free_blocks ?s') + (mset (bound_blocks ?s') + {#block a#})"
    by (simp add: all_blocks_def)
  also have "\<dots> = mset (free_blocks ?s') + (mset (bound_blocks s) + {#b#})"
    by (simp only: g)
  also have "\<dots> = (mset (free_blocks ?s') + {#b#}) + mset (bound_blocks s)"
    by (simp only: ac_simps)
  also have "\<dots> = mset (all_blocks s)"
    by (simp only: f) (simp add: all_blocks_def)
  finally show ?thesis .
qed

lemma deallocate_blocks:
  assumes "distinct (map fst (allocated_processes s))"
    and "map_of (allocated_processes s) p = Some a"
  shows "mset (all_blocks (snd (deallocate s p))) = mset (all_blocks s)"
proof -
  have "mset (free_blocks (snd (deallocate s p))) = mset (free_blocks s) + {#block a#}"
  proof (cases "map_of (memory_blocks s) (size_kb a)")
    case None
    then show ?thesis
      by (simp add: deallocate_Some [OF assms(2)] free_blocks_def update_new_key)
  next
    case (Some blocks)
    then show ?thesis
      using mset_free_update [OF Some, of "blocks @ [block a]"]
      by (simp add: deallocate_Some [OF assms(2)] free_blocks_def)
  qed
  moreover have "mset (bound_blocks (snd (deallocate s p))) + {#block a#} = mset (bound_blocks s)"
    using mset_bound_delete [OF assms, of "\<lambda>item. block (snd item)"]
    by (simp add: deallocate_Some [OF assms(2)] bound_blocks_def)
  ultimately show ?thesis
    by (simp add: all_blocks_def)
qed

lemma step_keeps_dict:
  "distinct (map fst (allocated_processes s)) \<Longrightarrow>
   distinct (map fst (allocated_processes (step s c)))"
proof (cases c)
  case (Allocate p sz)
  assume "distinct (map fst (allocated_processes s))"
  then show ?thesis
    by (auto simp: Allocate allocate_def distinct_update split: option.splits list.splits)
next
  case (Deallocate p)
  assume "distinct (map fst (allocated_processes s))"
  then show ?thesis
    by (auto simp: Deallocate deallocate_def Let_def distinct_delete split: option.splits)
qed

lemma orphans_Cons: "orphans s (c # calls) = orphans s [c] @ orphans (step s c) calls"
  by (cases c) simp_all

lemma step_blocks_account:
  assumes "distinct (map fst (allocated_processes s))"
  shows "mset (all_blocks (step s c)) + mset (orphans s [c]) = mset (all_blocks s)"
proof (cases c)
  case (Allocate p sz)
  show ?thesis
  proof (cases "\<exists>b bs. map_of (memory_blocks s) sz = Some (b # bs)")
    case True
    then obtain b bs where b: "map_of (memory_blocks s) sz = Some (b # bs)"
      by blast
    then have ok: "fst (fst (allocate s p sz))"
      by (simp add: allocate_ok_iff)
    show ?thesis
    proof (cases "map_of (allocated_processes s) p")
      case None
      then show ?thesis
        by (simp add: Allocate allocate_blocks_fresh [OF b])
    next
      case (Some a)
      then show ?thesis
        using allocate_blocks_overwrite [OF b Some] ok
        by (simp add: Allocate)
    qed
  next
    case False
    then have "allocate s p sz = ((False, no_exact_block_msg p sz), s)"
      by (auto simp: allocate_def split: option.splits list.splits)
    then show ?thesis
      by (simp add: Allocate split: option.splits)
  qed
next
  case (Deallocate p)
  show ?thesis
  proof (cases "map_of (allocated_processes s) p")
    case None
    then show ?thesis
      by (simp add: Deallocate deallocate_None)
  next
    case (Some a)
    then show ?thesis
      by (simp add: Deallocate deallocate_blocks [OF assms Some])
  qed
qed

lemma run_blocks_account:
  "distinct (map fst (allocated_processes s)) \<Longrightarrow>
   mset (all_blocks (run s calls)) + mset (orphans s calls) = mset (all_blocks s)"
  unfolding run_def
proof (induction calls arbitrary: s)
  case Nil
  then show ?case by simp
next
  case (Cons c calls)
  have d: "distinct (map fst (allocated_processes (step s c)))"
    using Cons.prems by (rule step_keeps_dict)
  have "mset (all_blocks (foldl step s (c # calls))) + mset (orphans s (c # calls))
      = (mset (all_blocks (foldl step (step s c) calls)) + mset (orphans (step s c) calls))
          + mset (orphans s [c])"
    by (simp add: orphans_Cons [of s c calls])
  also have "\<dots> = mset (all_blocks (step s c)) + mset (orphans s [c])"
    by (simp only: Cons.IH [OF d])
  also have "\<dots> = mset (all_blocks s)"
    using Cons.prems by (rule step_blocks_account)
  finally show ?case .
qed

lemma no_overwrite_orphans: "no_overwrite s calls \<Longrightarrow> orphans s calls = []"
proof (induction calls arbitrary: s)
  case Nil
  then show ?case by simp
next
  case (Cons c calls)
  then show ?case
    by (cases c) (auto split: option.splits)
qed

lemma seed_blocks_account:
  "count_list (all_blocks (run (init seed) calls)) b + count_list (orphans (init seed) calls) b
     = count_list (concat (map snd seed)) b"
proof -
  have "mset (all_blocks (run (init seed) calls)) + mset (orphans (init seed) calls)
      = mset (all_blocks (init seed))"
    by (rule run_blocks_account) (simp add: init_def)
  then have "count (mset (all_blocks (run (init seed) calls)) + mset (orphans (init seed) calls)) b
      = count (mset (all_blocks (init seed))) b"
    by (simp only:)
  then have "count_list (all_blocks (run (init seed) calls)) b
      + count_list (orphans (init seed) calls) b = count_list (all_blocks (init seed)) b"
    by (simp only: count_union count_mset)
  moreover have "all_blocks (init seed) = concat (map snd seed)"
    by (simp add: all_blocks_def free_blocks_def bound_blocks_def init_def)
  ultimately show ?thesis
    by (simp only:)
qed

lemma distinct_count_list: "distinct xs \<Longrightarrow> count_list xs x = (if x \<in> set xs then 1 else 0)"
  by (induction xs) auto

lemma count_list_le_1_distinct: "(\<And>x. count_list xs x \<le> 1) \<Longrightarrow> distinct xs"
proof (induction xs)
  case Nil
  then show ?case by simp
next
  case (Cons y ys)
  have "count_list ys x \<le> 1" for x
    using Cons.prems [of x] by (simp split: if_splits)
  then have "distinct ys"
    by (rule Cons.IH)
  moreover have "y \<notin> set ys"
    using Cons.prems [of y] by (simp add: count_list_0_iff)
  ultimately show ?case by simp
qed

lemma run_blocks_distinct:
  assumes "distinct (concat (map snd seed))"
  shows "distinct (all_blocks (run (init seed) calls))"
proof (rule count_list_le_1_distinct)
  fix x
  have "count_list (concat (map snd seed)) x \<le> 1"
    using assms by (simp add: distinct_count_list)
  then show "count_list (all_blocks (run (init seed) calls)) x \<le> 1"
    using seed_blocks_account [of seed calls x] by linarith
qed

section \<open>The order of the entries\<close>

lemma allocate_keys:
  "map fst (memory_blocks (snd (allocate s p sz))) = map fst (memory_blocks s)"
  by (auto simp: allocate_def update_keys split: option.splits list.splits dest: map_of_SomeD
      intro: rev_image_eqI)

lemma deallocate_keys:
  "map fst (memory_blocks (snd (deallocate s p))) =
     (case map_of (allocated_processes s) p of
        None \<Rightarrow> map fst (memory_blocks s)
      | Some a \<Rightarrow>
          if map_of (memory_blocks s) (size_kb a) = None
          then map fst (memory_blocks s) @ [size_kb a]
          else map fst (memory_blocks s))"
proof (cases "map_of (allocated_processes s) p")
  case None
  then show ?thesis
    by (simp add: deallocate_None)
next
  case (Some a)
  show ?thesis
  proof (cases "map_of (memory_blocks s) (size_kb a)")
    case None
    then show ?thesis
      using Some by (simp add: deallocate_Some update_new_key)
  next
    case (Some blocks)
    then have "size_kb a \<in> fst ` set (memory_blocks s)"
      by (auto dest: map_of_SomeD intro: rev_image_eqI)
    then show ?thesis
      using Some \<open>map_of (allocated_processes s) p = Some a\<close>
      by (simp add: deallocate_Some update_keys)
  qed
qed

lemma allocate_processes:
  "map fst (allocated_processes (snd (allocate s p sz))) =
     (if fst (fst (allocate s p sz)) \<and> map_of (allocated_processes s) p = None
      then map fst (allocated_processes s) @ [p]
      else map fst (allocated_processes s))"
proof (cases "\<exists>b bs. map_of (memory_blocks s) sz = Some (b # bs)")
  case True
  then obtain b bs where b: "map_of (memory_blocks s) sz = Some (b # bs)"
    by blast
  then have ok: "fst (fst (allocate s p sz))"
    by (simp add: allocate_ok_iff)
  show ?thesis
  proof (cases "map_of (allocated_processes s) p")
    case None
    then show ?thesis
      using ok by (simp add: allocate_Some_Cons [OF b] update_new_key)
  next
    case (Some a)
    then have "p \<in> fst ` set (allocated_processes s)"
      by (auto dest: map_of_SomeD intro: rev_image_eqI)
    then show ?thesis
      using Some by (simp add: allocate_Some_Cons [OF b] update_keys)
  qed
next
  case False
  then have "allocate s p sz = ((False, no_exact_block_msg p sz), s)"
    by (auto simp: allocate_def split: option.splits list.splits)
  then show ?thesis
    by simp
qed

lemma deallocate_processes:
  "map fst (allocated_processes (snd (deallocate s p))) = removeAll p (map fst (allocated_processes s))"
proof (cases "map_of (allocated_processes s) p")
  case None
  then have "p \<notin> set (map fst (allocated_processes s))"
    by (simp add: map_of_eq_None_iff)
  then show ?thesis
    using None by (simp add: deallocate_None)
next
  case (Some a)
  then show ?thesis
    by (simp add: deallocate_Some delete_keys)
qed

lemma step_sizes_known:
  assumes "sizes_known s"
  shows "sizes_known (step s c)"
proof (cases c)
  case (Allocate p sz)
  show ?thesis
  proof (cases "\<exists>b bs. map_of (memory_blocks s) sz = Some (b # bs)")
    case True
    then obtain b bs where b: "map_of (memory_blocks s) sz = Some (b # bs)"
      by blast
    have "set (AList.update p v al) \<subseteq> insert (p, v) (set al)" for v :: allocation and al
      by (induction al) auto
    then show ?thesis
      using assms b
      by (fastforce simp: Allocate sizes_known_def allocate_Some_Cons [OF b] update_conv')
  next
    case False
    then have "snd (allocate s p sz) = s"
      by (auto simp: allocate_def split: option.splits list.splits)
    then show ?thesis
      using assms by (simp add: Allocate)
  qed
next
  case (Deallocate p)
  show ?thesis
  proof (cases "map_of (allocated_processes s) p")
    case None
    then show ?thesis
      using assms by (simp add: Deallocate deallocate_None)
  next
    case (Some a)
    have "set (AList.delete p (allocated_processes s)) \<subseteq> set (allocated_processes s)"
      by (auto simp: AList.delete_eq)
    then show ?thesis
      using assms
      by (fastforce simp: Deallocate sizes_known_def deallocate_Some [OF Some] update_conv')
  qed
qed

lemma step_keys_known:
  assumes "sizes_known s"
  shows "map fst (memory_blocks (step s c)) = map fst (memory_blocks s)"
proof (cases c)
  case (Allocate p sz)
  then show ?thesis
    by (simp add: allocate_keys)
next
  case (Deallocate p)
  show ?thesis
  proof (cases "map_of (allocated_processes s) p")
    case None
    then show ?thesis
      by (simp add: Deallocate deallocate_keys)
  next
    case (Some a)
    then have "(p, a) \<in> set (allocated_processes s)"
      by (rule map_of_SomeD)
    then have "map_of (memory_blocks s) (size_kb a) \<noteq> None"
      using assms by (force simp: sizes_known_def)
    then show ?thesis
      using Some by (simp add: Deallocate deallocate_keys)
  qed
qed

lemma run_keys:
  "sizes_known s \<Longrightarrow> map fst (memory_blocks (run s calls)) = map fst (memory_blocks s)"
  unfolding run_def
proof (induction calls arbitrary: s)
  case Nil
  then show ?case by simp
next
  case (Cons c calls)
  have "map fst (memory_blocks (foldl step (step s c) calls)) = map fst (memory_blocks (step s c))"
    using Cons.prems by (intro Cons.IH step_sizes_known)
  also have "\<dots> = map fst (memory_blocks s)"
    using Cons.prems by (rule step_keys_known)
  finally show ?case by simp
qed

lemma init_sizes_known: "sizes_known (init seed)"
  by (simp add: sizes_known_def init_def)

section \<open>The claims\<close>

text \<open>
  C1. When the requested size is a key of \<open>memory_blocks\<close> and its list is
  \<open>b # bs\<close>, \<open>allocate\<close> returns \<open>True\<close> with a message naming the process, the
  block \<open>b\<close> and the size; afterwards the list of that size is \<open>bs\<close> and the process
  is bound to \<open>b\<close> with that size. With class 50 seeded with Block1 and Block2,
  allocating for P1 and then for P2 gives Block1 to P1 and Block2 to P2.
\<close>

theorem allocate_pops_first_block:
  "(map_of (memory_blocks s) sz = Some (b # bs) \<longrightarrow>
      fst (allocate s process_id sz) =
        (True, ''Process '' @ process_id @ '' allocated to '' @ b @ '' ('' @ str_int sz @ '' KB).'')
      \<and> memory_blocks (snd (allocate s process_id sz)) = AList.update sz bs (memory_blocks s)
      \<and> map_of (memory_blocks (snd (allocate s process_id sz))) sz = Some bs
      \<and> allocated_processes (snd (allocate s process_id sz)) =
          AList.update process_id \<lparr>block = b, size_kb = sz\<rparr> (allocated_processes s)
      \<and> map_of (allocated_processes (snd (allocate s process_id sz))) process_id =
          Some \<lparr>block = b, size_kb = sz\<rparr>)
   \<and> (let s0 = init [(50, [''Block1'', ''Block2''])];
           (r1, s1) = allocate s0 ''P1'' 50;
           (r2, s2) = allocate s1 ''P2'' 50
       in r1 = (True, ''Process P1 allocated to Block1 (50 KB).'')
        \<and> r2 = (True, ''Process P2 allocated to Block2 (50 KB).'')
        \<and> memory_blocks s2 = [(50, [])]
        \<and> allocated_processes s2 =
            [(''P1'', \<lparr>block = ''Block1'', size_kb = 50\<rparr>),
             (''P2'', \<lparr>block = ''Block2'', size_kb = 50\<rparr>)])"
proof (rule conjI)
  show "map_of (memory_blocks s) sz = Some (b # bs) \<longrightarrow>
      fst (allocate s process_id sz) =
        (True, ''Process '' @ process_id @ '' allocated to '' @ b @ '' ('' @ str_int sz @ '' KB).'')
      \<and> memory_blocks (snd (allocate s process_id sz)) = AList.update sz bs (memory_blocks s)
      \<and> map_of (memory_blocks (snd (allocate s process_id sz))) sz = Some bs
      \<and> allocated_processes (snd (allocate s process_id sz)) =
          AList.update process_id \<lparr>block = b, size_kb = sz\<rparr> (allocated_processes s)
      \<and> map_of (allocated_processes (snd (allocate s process_id sz))) process_id =
          Some \<lparr>block = b, size_kb = sz\<rparr>"
    by (simp add: allocate_Some_Cons allocated_msg_def update_conv')
next
  show "let s0 = init [(50, [''Block1'', ''Block2''])];
           (r1, s1) = allocate s0 ''P1'' 50;
           (r2, s2) = allocate s1 ''P2'' 50
       in r1 = (True, ''Process P1 allocated to Block1 (50 KB).'')
        \<and> r2 = (True, ''Process P2 allocated to Block2 (50 KB).'')
        \<and> memory_blocks s2 = [(50, [])]
        \<and> allocated_processes s2 =
            [(''P1'', \<lparr>block = ''Block1'', size_kb = 50\<rparr>),
             (''P2'', \<lparr>block = ''Block2'', size_kb = 50\<rparr>)]"
    by code_simp
qed

theorem allocate_pops_first_block_witness:
  "map_of (memory_blocks (init [(100, [''Block3'', ''Block4''])])) 100 = Some [''Block3'', ''Block4'']
   \<and> fst (allocate (init [(100, [''Block3'', ''Block4''])]) ''P7'' 100) =
       (True, ''Process P7 allocated to Block3 (100 KB).'')
   \<and> map_of (memory_blocks (snd (allocate (init [(100, [''Block3'', ''Block4''])]) ''P7'' 100))) 100
       = Some [''Block4'']
   \<and> map_of (allocated_processes (snd (allocate (init [(100, [''Block3'', ''Block4''])]) ''P7'' 100))) ''P7''
       = Some \<lparr>block = ''Block3'', size_kb = 100\<rparr>"
proof -
  have h: "map_of (memory_blocks (init [(100, [''Block3'', ''Block4''])])) 100
             = Some (''Block3'' # [''Block4''])"
    by (simp add: init_def)
  have d: "str_int 100 = ''100''"
    by code_simp
  show ?thesis
    using h allocate_pops_first_block [of "init [(100, [''Block3'', ''Block4''])]" 100 "''Block3''" "[''Block4'']" "''P7''"]
    by (simp add: d init_def)
qed

text \<open>
  C2. When the requested size is not a key of \<open>memory_blocks\<close>, or its list is empty,
  \<open>allocate\<close> returns \<open>False\<close> with the message "No exact block available" naming
  the process and the size, and the state it returns is the state it was given. In
  particular a size that was not a key is not a key afterwards.
\<close>

theorem allocate_failure_keeps_state:
  "(map_of (memory_blocks s) sz = None \<or> map_of (memory_blocks s) sz = Some [] \<longrightarrow>
      allocate s process_id sz =
        ((False, ''No exact block available for Process '' @ process_id
                   @ '' requiring '' @ str_int sz @ '' KB.''), s))
   \<and> (map_of (memory_blocks s) sz = None \<longrightarrow>
        sz \<notin> fst ` set (memory_blocks (snd (allocate s process_id sz))))"
  by (auto simp: allocate_None allocate_Some_Nil no_exact_block_msg_def map_of_eq_None_iff)

theorem allocate_failure_keeps_state_witness:
  "map_of (memory_blocks (init [(50, [''Block1'', ''Block2'']), (200, [])])) 999 = None
   \<and> allocate (init [(50, [''Block1'', ''Block2'']), (200, [])]) ''P1'' 999 =
       ((False, ''No exact block available for Process P1 requiring 999 KB.''),
        init [(50, [''Block1'', ''Block2'']), (200, [])])
   \<and> 999 \<notin> fst ` set (memory_blocks
        (snd (allocate (init [(50, [''Block1'', ''Block2'']), (200, [])]) ''P1'' 999)))
   \<and> map_of (memory_blocks (init [(50, [''Block1'', ''Block2'']), (200, [])])) 200 = Some []
   \<and> allocate (init [(50, [''Block1'', ''Block2'']), (200, [])]) ''P2'' 200 =
       ((False, ''No exact block available for Process P2 requiring 200 KB.''),
        init [(50, [''Block1'', ''Block2'']), (200, [])])"
proof -
  let ?s = "init [(50, [''Block1'', ''Block2'']), (200, [])]"
  have h1: "map_of (memory_blocks ?s) 999 = None"
    by (simp add: init_def)
  have h2: "map_of (memory_blocks ?s) 200 = Some []"
    by (simp add: init_def)
  have d1: "str_int 999 = ''999''"
    by code_simp
  have d2: "str_int 200 = ''200''"
    by code_simp
  show ?thesis
    using h1 h2 allocate_failure_keeps_state [of ?s 999 "''P1''"]
      allocate_failure_keeps_state [of ?s 200 "''P2''"]
    by (simp add: d1 d2 init_def)
qed

text \<open>
  C4. When the process has no binding, \<open>deallocate\<close> returns \<open>False\<close> with the message
  "No allocation found" naming the process, and the state is unchanged. After a
  \<open>deallocate\<close> that succeeded, the same call again fails in that way.
\<close>

theorem deallocate_unbound_fails:
  "(map_of (allocated_processes s) process_id = None \<longrightarrow>
      deallocate s process_id =
        ((False, ''No allocation found for Process '' @ process_id @ ''.''), s))
   \<and> (fst (fst (deallocate s process_id)) \<longrightarrow>
        deallocate (snd (deallocate s process_id)) process_id =
          ((False, ''No allocation found for Process '' @ process_id @ ''.''),
           snd (deallocate s process_id)))"
proof (rule conjI)
  show "map_of (allocated_processes s) process_id = None \<longrightarrow>
      deallocate s process_id =
        ((False, ''No allocation found for Process '' @ process_id @ ''.''), s)"
    by (simp add: deallocate_None no_allocation_msg_def)
next
  show "fst (fst (deallocate s process_id)) \<longrightarrow>
        deallocate (snd (deallocate s process_id)) process_id =
          ((False, ''No allocation found for Process '' @ process_id @ ''.''),
           snd (deallocate s process_id))"
  proof
    assume "fst (fst (deallocate s process_id))"
    then obtain a where a: "map_of (allocated_processes s) process_id = Some a"
      by (auto simp: deallocate_ok_iff)
    have "map_of (allocated_processes (snd (deallocate s process_id))) process_id = None"
      by (simp add: deallocate_Some [OF a] delete_conv')
    then show "deallocate (snd (deallocate s process_id)) process_id =
          ((False, ''No allocation found for Process '' @ process_id @ ''.''),
           snd (deallocate s process_id))"
      by (simp add: deallocate_None no_allocation_msg_def)
  qed
qed

theorem deallocate_unbound_fails_witness:
  "map_of (allocated_processes (init [(50, [''Block1''])])) ''P1'' = None
   \<and> deallocate (init [(50, [''Block1''])]) ''P1'' =
       ((False, ''No allocation found for Process P1.''), init [(50, [''Block1''])])
   \<and> fst (fst (deallocate (run (init [(50, [''Block1''])]) [Allocate ''P1'' 50]) ''P1''))
   \<and> fst (deallocate (snd (deallocate (run (init [(50, [''Block1''])]) [Allocate ''P1'' 50]) ''P1'')) ''P1'')
       = (False, ''No allocation found for Process P1.'')"
proof -
  let ?s = "init [(50, [''Block1''])]"
  let ?t = "run ?s [Allocate ''P1'' 50]"
  have h1: "map_of (allocated_processes ?s) ''P1'' = None"
    by (simp add: init_def)
  have h2: "fst (fst (deallocate ?t ''P1''))"
    by code_simp
  show ?thesis
    using h1 h2 deallocate_unbound_fails [of ?s "''P1''"] deallocate_unbound_fails [of ?t "''P1''"]
    by simp
qed

text \<open>
  C10. A successful \<open>allocate\<close> for process \<open>p\<close> and size \<open>sz\<close> takes the first
  block off the list of \<open>sz\<close> and binds \<open>p\<close> to it; the list of every other size and
  the binding of every other process are as before. A successful \<open>deallocate\<close> of
  \<open>p\<close> puts the block at the end of the list of the bound size and removes the
  binding of \<open>p\<close>; the list of every other size and the binding of every other
  process are as before.
\<close>

theorem calls_change_one_class_and_one_binding:
  "(fst (fst (allocate s p sz)) \<longrightarrow>
      (\<exists>b bs. map_of (memory_blocks s) sz = Some (b # bs)
         \<and> map_of (memory_blocks (snd (allocate s p sz))) sz = Some bs
         \<and> map_of (allocated_processes (snd (allocate s p sz))) p = Some \<lparr>block = b, size_kb = sz\<rparr>)
      \<and> (\<forall>sz'. sz' \<noteq> sz \<longrightarrow>
            map_of (memory_blocks (snd (allocate s p sz))) sz' = map_of (memory_blocks s) sz')
      \<and> (\<forall>p'. p' \<noteq> p \<longrightarrow>
            map_of (allocated_processes (snd (allocate s p sz))) p' = map_of (allocated_processes s) p'))
   \<and> (fst (fst (deallocate s p)) \<longrightarrow>
      (\<exists>a. map_of (allocated_processes s) p = Some a
         \<and> map_of (memory_blocks (snd (deallocate s p))) (size_kb a) =
             Some ((case map_of (memory_blocks s) (size_kb a) of None \<Rightarrow> [] | Some blocks \<Rightarrow> blocks)
                    @ [block a])
         \<and> (\<forall>sz'. sz' \<noteq> size_kb a \<longrightarrow>
               map_of (memory_blocks (snd (deallocate s p))) sz' = map_of (memory_blocks s) sz'))
      \<and> map_of (allocated_processes (snd (deallocate s p))) p = None
      \<and> (\<forall>p'. p' \<noteq> p \<longrightarrow>
            map_of (allocated_processes (snd (deallocate s p))) p' = map_of (allocated_processes s) p'))"
proof (intro conjI impI)
  assume "fst (fst (allocate s p sz))"
  then obtain b bs where b: "map_of (memory_blocks s) sz = Some (b # bs)"
    by (auto simp: allocate_ok_iff)
  show "\<exists>b bs. map_of (memory_blocks s) sz = Some (b # bs)
         \<and> map_of (memory_blocks (snd (allocate s p sz))) sz = Some bs
         \<and> map_of (allocated_processes (snd (allocate s p sz))) p = Some \<lparr>block = b, size_kb = sz\<rparr>"
    using b by (simp add: allocate_Some_Cons update_conv')
  show "\<forall>sz'. sz' \<noteq> sz \<longrightarrow>
            map_of (memory_blocks (snd (allocate s p sz))) sz' = map_of (memory_blocks s) sz'"
    using b by (simp add: allocate_Some_Cons update_conv')
  show "\<forall>p'. p' \<noteq> p \<longrightarrow>
            map_of (allocated_processes (snd (allocate s p sz))) p' = map_of (allocated_processes s) p'"
    using b by (simp add: allocate_Some_Cons update_conv')
next
  assume "fst (fst (deallocate s p))"
  then obtain a where a: "map_of (allocated_processes s) p = Some a"
    by (auto simp: deallocate_ok_iff)
  show "\<exists>a. map_of (allocated_processes s) p = Some a
         \<and> map_of (memory_blocks (snd (deallocate s p))) (size_kb a) =
             Some ((case map_of (memory_blocks s) (size_kb a) of None \<Rightarrow> [] | Some blocks \<Rightarrow> blocks)
                    @ [block a])
         \<and> (\<forall>sz'. sz' \<noteq> size_kb a \<longrightarrow>
               map_of (memory_blocks (snd (deallocate s p))) sz' = map_of (memory_blocks s) sz')"
    using a by (simp add: deallocate_Some update_conv')
  show "map_of (allocated_processes (snd (deallocate s p))) p = None"
    using a by (simp add: deallocate_Some delete_conv')
  show "\<forall>p'. p' \<noteq> p \<longrightarrow>
            map_of (allocated_processes (snd (deallocate s p))) p' = map_of (allocated_processes s) p'"
    using a by (simp add: deallocate_Some delete_conv')
qed

theorem calls_change_one_class_and_one_binding_witness:
  "fst (fst (allocate (run (init [(50, [''Block1'', ''Block2'']), (100, [''Block3''])])
                        [Allocate ''P1'' 50]) ''P2'' 50))
   \<and> map_of (memory_blocks (snd (allocate (run (init [(50, [''Block1'', ''Block2'']), (100, [''Block3''])])
                        [Allocate ''P1'' 50]) ''P2'' 50))) 100 = Some [''Block3'']
   \<and> map_of (allocated_processes (snd (allocate (run (init [(50, [''Block1'', ''Block2'']), (100, [''Block3''])])
                        [Allocate ''P1'' 50]) ''P2'' 50))) ''P1'' = Some \<lparr>block = ''Block1'', size_kb = 50\<rparr>
   \<and> fst (fst (deallocate (run (init [(50, [''Block1'', ''Block2'']), (100, [''Block3''])])
                        [Allocate ''P1'' 50]) ''P1''))
   \<and> map_of (memory_blocks (snd (deallocate (run (init [(50, [''Block1'', ''Block2'']), (100, [''Block3''])])
                        [Allocate ''P1'' 50]) ''P1''))) 100 = Some [''Block3'']
   \<and> map_of (allocated_processes (snd (deallocate (run (init [(50, [''Block1'', ''Block2'']), (100, [''Block3''])])
                        [Allocate ''P1'' 50]) ''P1''))) ''P1'' = None"
proof -
  let ?t = "run (init [(50, [''Block1'', ''Block2'']), (100, [''Block3''])]) [Allocate ''P1'' 50]"
  have h1: "fst (fst (allocate ?t ''P2'' 50))"
    by code_simp
  have h2: "fst (fst (deallocate ?t ''P1''))"
    by code_simp
  have t1: "map_of (memory_blocks ?t) 100 = Some [''Block3'']"
    by code_simp
  have t2: "map_of (allocated_processes ?t) ''P1'' = Some \<lparr>block = ''Block1'', size_kb = 50\<rparr>"
    by code_simp
  note c = calls_change_one_class_and_one_binding [of ?t "''P2''" 50]
  note d = calls_change_one_class_and_one_binding [of ?t "''P1''"]
  from c h1 have "map_of (memory_blocks (snd (allocate ?t ''P2'' 50))) 100 = map_of (memory_blocks ?t) 100"
    by simp
  moreover from c h1
  have "map_of (allocated_processes (snd (allocate ?t ''P2'' 50))) ''P1'' = map_of (allocated_processes ?t) ''P1''"
    by simp
  moreover from d h2 t2
  have "map_of (memory_blocks (snd (deallocate ?t ''P1''))) 100 = map_of (memory_blocks ?t) 100"
    by simp
  moreover from d h2 have "map_of (allocated_processes (snd (deallocate ?t ''P1''))) ''P1'' = None"
    by simp
  ultimately show ?thesis
    using h1 h2 t1 t2 by simp
qed

text \<open>
  C3. The claim says that the result of a successful \<open>deallocate\<close> reports the block,
  the size and the process. The message the code returns names the block and the
  size only: releasing Block1 of size 50 gives the same result whether P1 or P2 held
  it, and the letter P does not occur in it.
\<close>

theorem deallocate_result_names_no_process_counterexample:
  "fst (deallocate (run (init [(50, [''Block1'', ''Block2''])]) [Allocate ''P1'' 50]) ''P1'')
     = (True, ''Block Block1 (50 KB) deallocated.'')
   \<and> fst (deallocate (run (init [(50, [''Block1'', ''Block2''])]) [Allocate ''P2'' 50]) ''P2'')
     = (True, ''Block Block1 (50 KB) deallocated.'')
   \<and> CHR ''P'' \<notin> set ''Block Block1 (50 KB) deallocated.''"
  by code_simp

text \<open>
  C3, as the code has it. When the process is bound to a block and a size,
  \<open>deallocate\<close> returns \<open>True\<close> with the message "Block ... (... KB) deallocated."
  naming the block and the size; the block is put at the end of the list of that size
  (when the size is not yet a key, it becomes the last key, with the block as its only
  entry), and the binding of the process is removed.
\<close>

theorem deallocate_returns_block:
  "map_of (allocated_processes s) process_id = Some a \<Longrightarrow>
     fst (deallocate s process_id) =
       (True, ''Block '' @ block a @ '' ('' @ str_int (size_kb a) @ '' KB) deallocated.'')
     \<and> (case map_of (memory_blocks s) (size_kb a) of
          Some blocks \<Rightarrow>
            memory_blocks (snd (deallocate s process_id)) =
              AList.update (size_kb a) (blocks @ [block a]) (memory_blocks s)
            \<and> map_of (memory_blocks (snd (deallocate s process_id))) (size_kb a) =
                Some (blocks @ [block a])
        | None \<Rightarrow>
            memory_blocks (snd (deallocate s process_id)) =
              memory_blocks s @ [(size_kb a, [block a])]
            \<and> map_of (memory_blocks (snd (deallocate s process_id))) (size_kb a) =
                Some [block a])
     \<and> allocated_processes (snd (deallocate s process_id)) =
         AList.delete process_id (allocated_processes s)
     \<and> map_of (allocated_processes (snd (deallocate s process_id))) process_id = None"
proof -
  assume a: "map_of (allocated_processes s) process_id = Some a"
  have "map_of (memory_blocks s) (size_kb a) = None \<Longrightarrow>
        map_of (memory_blocks s @ [(size_kb a, [block a])]) (size_kb a) = Some [block a]"
    by (simp add: map_add_def)
  then show ?thesis
    using a
    by (simp add: deallocate_Some deallocated_msg_def update_conv' delete_conv'
        update_new_key [of "memory_blocks s"] split: option.splits)
qed

theorem deallocate_returns_block_witness:
  "map_of (allocated_processes
      \<lparr>memory_blocks = [(50, [''Block2''])],
       allocated_processes = [(''P1'', \<lparr>block = ''Block1'', size_kb = 50\<rparr>),
                              (''P2'', \<lparr>block = ''Block9'', size_kb = 70\<rparr>)]\<rparr>) ''P1''
     = Some \<lparr>block = ''Block1'', size_kb = 50\<rparr>
   \<and> fst (deallocate
      \<lparr>memory_blocks = [(50, [''Block2''])],
       allocated_processes = [(''P1'', \<lparr>block = ''Block1'', size_kb = 50\<rparr>),
                              (''P2'', \<lparr>block = ''Block9'', size_kb = 70\<rparr>)]\<rparr> ''P1'')
     = (True, ''Block Block1 (50 KB) deallocated.'')
   \<and> memory_blocks (snd (deallocate
      \<lparr>memory_blocks = [(50, [''Block2''])],
       allocated_processes = [(''P1'', \<lparr>block = ''Block1'', size_kb = 50\<rparr>),
                              (''P2'', \<lparr>block = ''Block9'', size_kb = 70\<rparr>)]\<rparr> ''P1''))
     = [(50, [''Block2'', ''Block1''])]
   \<and> allocated_processes (snd (deallocate
      \<lparr>memory_blocks = [(50, [''Block2''])],
       allocated_processes = [(''P1'', \<lparr>block = ''Block1'', size_kb = 50\<rparr>),
                              (''P2'', \<lparr>block = ''Block9'', size_kb = 70\<rparr>)]\<rparr> ''P1''))
     = [(''P2'', \<lparr>block = ''Block9'', size_kb = 70\<rparr>)]
   \<and> memory_blocks (snd (deallocate
      \<lparr>memory_blocks = [(50, [''Block2''])],
       allocated_processes = [(''P1'', \<lparr>block = ''Block1'', size_kb = 50\<rparr>),
                              (''P2'', \<lparr>block = ''Block9'', size_kb = 70\<rparr>)]\<rparr> ''P2''))
     = [(50, [''Block2'']), (70, [''Block9''])]"
proof -
  let ?s = "\<lparr>memory_blocks = [(50, [''Block2''])],
       allocated_processes = [(''P1'', \<lparr>block = ''Block1'', size_kb = 50\<rparr>),
                              (''P2'', \<lparr>block = ''Block9'', size_kb = 70\<rparr>)]\<rparr>"
  have h1: "map_of (allocated_processes ?s) ''P1'' = Some \<lparr>block = ''Block1'', size_kb = 50\<rparr>"
    by simp
  have h2: "map_of (allocated_processes ?s) ''P2'' = Some \<lparr>block = ''Block9'', size_kb = 70\<rparr>"
    by simp
  have d1: "str_int 50 = ''50''"
    by code_simp
  show ?thesis
    using deallocate_returns_block [OF h1] deallocate_returns_block [OF h2] h1
    by (simp add: d1 AList.delete_eq)
qed

text \<open>
  C7. The claim says that the \<open>deallocate\<close> after an \<open>allocate\<close> reports the block,
  the size and the process. The result names the block and the size only: after
  \<open>allocate\<close> of size 100 for P9, or for Q7, \<open>deallocate\<close> returns the same message,
  in which the digit 9 does not occur.
\<close>

theorem round_trip_result_names_no_process_counterexample:
  "fst (deallocate (snd (allocate (init [(100, [''Block3'', ''Block4''])]) ''P9'' 100)) ''P9'')
     = (True, ''Block Block3 (100 KB) deallocated.'')
   \<and> fst (deallocate (snd (allocate (init [(100, [''Block3'', ''Block4''])]) ''Q7'' 100)) ''Q7'')
     = (True, ''Block Block3 (100 KB) deallocated.'')
   \<and> CHR ''9'' \<notin> set ''Block Block3 (100 KB) deallocated.''"
  by code_simp

text \<open>
  C7, as the code has it. After a successful \<open>allocate\<close> that gave block \<open>b\<close> of
  size \<open>sz\<close> to process \<open>p\<close>, leaving \<open>bs\<close> free, \<open>deallocate\<close> of \<open>p\<close> returns
  \<open>True\<close> with the message naming \<open>b\<close> and \<open>sz\<close>, removes the binding of \<open>p\<close> and
  leaves \<open>bs @ [b]\<close> as the list of \<open>sz\<close>. An \<open>allocate\<close> of \<open>sz\<close> for any process
  \<open>p2\<close> then gives the oldest entry of that list: the first of \<open>bs\<close>, and \<open>b\<close>
  itself when \<open>bs\<close> is empty, so \<open>p2\<close> gets \<open>b\<close> exactly when \<open>b\<close> is that oldest entry.
\<close>

theorem allocate_deallocate_round_trip:
  "map_of (memory_blocks s) sz = Some (b # bs) \<Longrightarrow>
   (let s1 = snd (allocate s p sz);
        (r, s2) = deallocate s1 p;
        (r2, s3) = allocate s2 p2 sz;
        oldest = (case bs of [] \<Rightarrow> b | x # _ \<Rightarrow> x)
    in map_of (allocated_processes s1) p = Some \<lparr>block = b, size_kb = sz\<rparr>
     \<and> r = (True, ''Block '' @ b @ '' ('' @ str_int sz @ '' KB) deallocated.'')
     \<and> map_of (allocated_processes s2) p = None
     \<and> map_of (memory_blocks s2) sz = Some (bs @ [b])
     \<and> (\<exists>rest. bs @ [b] = oldest # rest)
     \<and> r2 = (True, ''Process '' @ p2 @ '' allocated to '' @ oldest @ '' ('' @ str_int sz @ '' KB).'')
     \<and> map_of (allocated_processes s3) p2 = Some \<lparr>block = oldest, size_kb = sz\<rparr>)"
proof -
  assume h: "map_of (memory_blocks s) sz = Some (b # bs)"
  define s1 where "s1 = snd (allocate s p sz)"
  define s2 where "s2 = snd (deallocate s1 p)"
  define oldest where "oldest = (case bs of [] \<Rightarrow> b | x # _ \<Rightarrow> x)"
  have b1: "map_of (allocated_processes s1) p = Some \<lparr>block = b, size_kb = sz\<rparr>"
    by (simp add: s1_def allocate_Some_Cons [OF h] update_conv')
  have m1: "map_of (memory_blocks s1) sz = Some bs"
    by (simp add: s1_def allocate_Some_Cons [OF h] update_conv')
  have r: "fst (deallocate s1 p) = (True, ''Block '' @ b @ '' ('' @ str_int sz @ '' KB) deallocated.'')"
    by (simp add: deallocate_Some [OF b1] deallocated_msg_def)
  have b2: "map_of (allocated_processes s2) p = None"
    by (simp add: s2_def deallocate_Some [OF b1] delete_conv')
  have m2: "map_of (memory_blocks s2) sz = Some (bs @ [b])"
    by (simp add: s2_def deallocate_Some [OF b1] m1 update_conv')
  obtain rest where rest: "bs @ [b] = oldest # rest"
    by (cases bs) (simp_all add: oldest_def)
  have m2': "map_of (memory_blocks s2) sz = Some (oldest # rest)"
    using m2 rest by simp
  have r2: "fst (allocate s2 p2 sz) =
      (True, ''Process '' @ p2 @ '' allocated to '' @ oldest @ '' ('' @ str_int sz @ '' KB).'')"
    by (simp add: allocate_Some_Cons [OF m2'] allocated_msg_def)
  have b3: "map_of (allocated_processes (snd (allocate s2 p2 sz))) p2 =
      Some \<lparr>block = oldest, size_kb = sz\<rparr>"
    by (simp add: allocate_Some_Cons [OF m2'] update_conv')
  show ?thesis
    using b1 r b2 m2 rest r2 b3
    unfolding Let_def s1_def [symmetric] oldest_def [symmetric]
    by (simp add: case_prod_beta s2_def [symmetric])
qed

theorem allocate_deallocate_round_trip_witness:
  "map_of (memory_blocks (init [(50, [''Block1'', ''Block2''])])) 50 = Some [''Block1'', ''Block2'']
   \<and> fst (deallocate (snd (allocate (init [(50, [''Block1'', ''Block2''])]) ''P1'' 50)) ''P1'')
       = (True, ''Block Block1 (50 KB) deallocated.'')
   \<and> map_of (memory_blocks
        (snd (deallocate (snd (allocate (init [(50, [''Block1'', ''Block2''])]) ''P1'' 50)) ''P1''))) 50
       = Some [''Block2'', ''Block1'']
   \<and> fst (allocate
        (snd (deallocate (snd (allocate (init [(50, [''Block1'', ''Block2''])]) ''P1'' 50)) ''P1''))
        ''P2'' 50)
       = (True, ''Process P2 allocated to Block2 (50 KB).'')"
proof -
  have h: "map_of (memory_blocks (init [(50, [''Block1'', ''Block2''])])) 50
      = Some (''Block1'' # [''Block2''])"
    by (simp add: init_def)
  have d: "str_int 50 = ''50''"
    by code_simp
  show ?thesis
    using h allocate_deallocate_round_trip [OF h, of "''P1''" "''P2''"]
    by (simp add: d Let_def case_prod_beta)
qed

text \<open>
  C8. \<open>get_memory_state\<close> returns the state it was given, with both dictionaries as
  they were; it is a total function, so it has a result on every state; and a second
  call on the state the first one left returns the same text and the same state.
\<close>

theorem get_memory_state_reads_only:
  "snd (get_memory_state repr_str s) = s
   \<and> memory_blocks (snd (get_memory_state repr_str s)) = memory_blocks s
   \<and> allocated_processes (snd (get_memory_state repr_str s)) = allocated_processes s
   \<and> get_memory_state repr_str (snd (get_memory_state repr_str s)) = get_memory_state repr_str s"
  by (simp add: get_memory_state_def Let_def)

text \<open>
  C5. The claim says that after any sequence of calls every block of the seed is in
  exactly one place. \<open>allocate\<close> does not look at \<open>allocated_processes\<close> before it
  stores the new binding: with class 50 seeded with Block1 and Block2, two calls of
  \<open>allocate\<close> for P1 leave Block1 in no free list and in no binding. And a seed
  that names a block twice has it in two places before any call.
\<close>

theorem overwritten_block_is_lost_counterexample:
  "distinct (concat (map snd [(50::int, [''Block1'', ''Block2''])]))
   \<and> ''Block1'' \<in> set (concat (map snd [(50::int, [''Block1'', ''Block2''])]))
   \<and> count_list
        (all_blocks (run (init [(50, [''Block1'', ''Block2''])])
                      [Allocate ''P1'' 50, Allocate ''P1'' 50])) ''Block1'' = 0
   \<and> run (init [(50, [''Block1'', ''Block2''])]) [Allocate ''P1'' 50, Allocate ''P1'' 50]
       = \<lparr>memory_blocks = [(50, [])],
          allocated_processes = [(''P1'', \<lparr>block = ''Block2'', size_kb = 50\<rparr>)]\<rparr>
   \<and> count_list (all_blocks (run (init [(50, [''Block7'', ''Block7''])]) [])) ''Block7'' = 2"
  by code_simp

text \<open>
  C5, as the code has it. After any sequence of calls, the occurrences of a block
  name in the free lists and the bindings, together with the times a successful
  \<open>allocate\<close> for a bound process replaced a binding to it (\<open>orphans\<close>), are the
  occurrences of the name in the seed. So when the block names of the seed are
  pairwise distinct, every block of the seed is in exactly one place, but for the
  blocks so replaced, which are in none; and no other name is anywhere. When no
  \<open>allocate\<close> of the sequence succeeds for a bound process, no block is replaced.
\<close>

theorem seeded_blocks_accounted:
  "count_list (all_blocks (run (init seed) calls)) b + count_list (orphans (init seed) calls) b
     = count_list (concat (map snd seed)) b
   \<and> (distinct (concat (map snd seed)) \<longrightarrow>
        count_list (all_blocks (run (init seed) calls)) b
          = (if b \<in> set (concat (map snd seed)) \<and> b \<notin> set (orphans (init seed) calls)
             then 1 else 0))
   \<and> (no_overwrite (init seed) calls \<longrightarrow> orphans (init seed) calls = [])"
proof (intro conjI impI)
  show account: "count_list (all_blocks (run (init seed) calls)) b
      + count_list (orphans (init seed) calls) b = count_list (concat (map snd seed)) b"
    by (rule seed_blocks_account)
  show "count_list (all_blocks (run (init seed) calls)) b
          = (if b \<in> set (concat (map snd seed)) \<and> b \<notin> set (orphans (init seed) calls)
             then 1 else 0)"
    if d: "distinct (concat (map snd seed))"
  proof (cases "b \<in> set (orphans (init seed) calls)")
    case True
    then have "count_list (orphans (init seed) calls) b \<noteq> 0"
      by (simp only: count_list_0_iff) simp
    then have "0 < count_list (orphans (init seed) calls) b"
      by linarith
    moreover have "count_list (concat (map snd seed)) b \<le> 1"
      using d by (simp add: distinct_count_list)
    ultimately have "count_list (all_blocks (run (init seed) calls)) b = 0"
      using account by linarith
    then show ?thesis
      using True by simp
  next
    case False
    then have "count_list (orphans (init seed) calls) b = 0"
      by (simp add: count_list_0_iff)
    then have "count_list (all_blocks (run (init seed) calls)) b
        = count_list (concat (map snd seed)) b"
      using account by linarith
    then show ?thesis
      using False d by (simp add: distinct_count_list)
  qed
  show "orphans (init seed) calls = []" if "no_overwrite (init seed) calls"
    using that by (rule no_overwrite_orphans)
qed

theorem seeded_blocks_accounted_witness:
  "distinct (concat (map snd [(50::int, [''Block1'', ''Block2'']), (100, [''Block3''])]))
   \<and> orphans (init [(50, [''Block1'', ''Block2'']), (100, [''Block3''])])
        [Allocate ''P1'' 50, Allocate ''P1'' 50, Allocate ''P2'' 100] = [''Block1'']
   \<and> count_list (all_blocks (run (init [(50, [''Block1'', ''Block2'']), (100, [''Block3''])])
        [Allocate ''P1'' 50, Allocate ''P1'' 50, Allocate ''P2'' 100])) ''Block1'' = 0
   \<and> count_list (all_blocks (run (init [(50, [''Block1'', ''Block2'']), (100, [''Block3''])])
        [Allocate ''P1'' 50, Allocate ''P1'' 50, Allocate ''P2'' 100])) ''Block2'' = 1
   \<and> count_list (all_blocks (run (init [(50, [''Block1'', ''Block2'']), (100, [''Block3''])])
        [Allocate ''P1'' 50, Allocate ''P1'' 50, Allocate ''P2'' 100])) ''Block3'' = 1
   \<and> no_overwrite (init [(50, [''Block1'', ''Block2'']), (100, [''Block3''])])
        [Allocate ''P1'' 50, Allocate ''P2'' 50, Deallocate ''P1'', Allocate ''P3'' 100]
   \<and> count_list (all_blocks (run (init [(50, [''Block1'', ''Block2'']), (100, [''Block3''])])
        [Allocate ''P1'' 50, Allocate ''P2'' 50, Deallocate ''P1'', Allocate ''P3'' 100])) ''Block1'' = 1"
proof -
  let ?seed = "[(50::int, [''Block1'', ''Block2'']), (100, [''Block3''])]"
  let ?over = "[Allocate ''P1'' 50, Allocate ''P1'' 50, Allocate ''P2'' 100]"
  let ?calls = "[Allocate ''P1'' 50, Allocate ''P2'' 50, Deallocate ''P1'', Allocate ''P3'' 100]"
  have h: "distinct (concat (map snd ?seed))"
    by simp
  have o: "orphans (init ?seed) ?over = [''Block1'']"
    by code_simp
  have n: "no_overwrite (init ?seed) ?calls"
    by code_simp
  show ?thesis
    using h o n
      seeded_blocks_accounted [of ?seed ?over "''Block1''"]
      seeded_blocks_accounted [of ?seed ?over "''Block2''"]
      seeded_blocks_accounted [of ?seed ?over "''Block3''"]
      seeded_blocks_accounted [of ?seed ?calls "''Block1''"]
    by simp
qed

text \<open>
  C6. The claim says that the block a process held is in no free list and in no
  binding after a second successful \<open>allocate\<close> for that process, in every state.
  With class 50 seeded with the name B twice, P1 holds B and B is free; the second
  \<open>allocate\<close> for P1 succeeds and P1 is bound to B again.
\<close>

theorem duplicate_block_stays_bound_counterexample:
  "map_of (allocated_processes (run (init [(50, [''B'', ''B''])]) [Allocate ''P1'' 50])) ''P1''
     = Some \<lparr>block = ''B'', size_kb = 50\<rparr>
   \<and> map_of (memory_blocks (run (init [(50, [''B'', ''B''])]) [Allocate ''P1'' 50])) 50 = Some [''B'']
   \<and> fst (fst (allocate (run (init [(50, [''B'', ''B''])]) [Allocate ''P1'' 50]) ''P1'' 50))
   \<and> ''B'' \<in> set (bound_blocks
        (snd (allocate (run (init [(50, [''B'', ''B''])]) [Allocate ''P1'' 50]) ''P1'' 50)))"
  by code_simp

text \<open>
  C6, as the code has it. In a state where process \<open>p\<close> is bound to a block that is
  in that one place only (as every block is in a state reached from a seed with
  pairwise distinct block names, by \<open>run_blocks_distinct\<close>), and the list of size
  \<open>sz\<close> is \<open>b' # bs\<close>, \<open>allocate\<close> for \<open>p\<close> succeeds and binds \<open>p\<close> to \<open>b'\<close>;
  the block \<open>p\<close> held before is afterwards in no free list and in no binding.
\<close>

theorem second_allocate_orphans_block:
  assumes "map_of (allocated_processes s) p = Some a"
    and "map_of (memory_blocks s) sz = Some (b' # bs)"
    and "count_list (all_blocks s) (block a) = 1"
  shows "fst (allocate s p sz) =
           (True, ''Process '' @ p @ '' allocated to '' @ b' @ '' ('' @ str_int sz @ '' KB).'')
    \<and> map_of (allocated_processes (snd (allocate s p sz))) p = Some \<lparr>block = b', size_kb = sz\<rparr>
    \<and> block a \<notin> set (free_blocks (snd (allocate s p sz)))
    \<and> block a \<notin> set (bound_blocks (snd (allocate s p sz)))"
proof -
  have "mset (all_blocks (snd (allocate s p sz))) + {#block a#} = mset (all_blocks s)"
    using assms(2) assms(1) by (rule allocate_blocks_overwrite)
  then have "count (mset (all_blocks (snd (allocate s p sz)))) (block a) + 1
      = count (mset (all_blocks s)) (block a)"
    by (metis add_mset_add_single count_add_mset Suc_eq_plus1)
  then have "count_list (all_blocks (snd (allocate s p sz))) (block a) = 0"
    using assms(3) by (simp add: count_mset)
  then have "block a \<notin> set (all_blocks (snd (allocate s p sz)))"
    by (simp add: count_list_0_iff)
  then show ?thesis
    by (simp add: allocate_Some_Cons [OF assms(2)] allocated_msg_def update_conv' all_blocks_def)
qed

theorem second_allocate_orphans_block_witness:
  "map_of (allocated_processes (run (init [(50, [''Block1'', ''Block2''])]) [Allocate ''P1'' 50])) ''P1''
     = Some \<lparr>block = ''Block1'', size_kb = 50\<rparr>
   \<and> map_of (memory_blocks (run (init [(50, [''Block1'', ''Block2''])]) [Allocate ''P1'' 50])) 50
     = Some [''Block2'']
   \<and> count_list (all_blocks (run (init [(50, [''Block1'', ''Block2''])]) [Allocate ''P1'' 50])) ''Block1'' = 1
   \<and> map_of (allocated_processes
        (snd (allocate (run (init [(50, [''Block1'', ''Block2''])]) [Allocate ''P1'' 50]) ''P1'' 50))) ''P1''
     = Some \<lparr>block = ''Block2'', size_kb = 50\<rparr>
   \<and> ''Block1'' \<notin> set (free_blocks
        (snd (allocate (run (init [(50, [''Block1'', ''Block2''])]) [Allocate ''P1'' 50]) ''P1'' 50)))
   \<and> ''Block1'' \<notin> set (bound_blocks
        (snd (allocate (run (init [(50, [''Block1'', ''Block2''])]) [Allocate ''P1'' 50]) ''P1'' 50)))"
proof -
  let ?t = "run (init [(50, [''Block1'', ''Block2''])]) [Allocate ''P1'' 50]"
  have h1: "map_of (allocated_processes ?t) ''P1'' = Some \<lparr>block = ''Block1'', size_kb = 50\<rparr>"
    by code_simp
  have h2: "map_of (memory_blocks ?t) 50 = Some (''Block2'' # [])"
    by code_simp
  have h3: "count_list (all_blocks ?t) (block \<lparr>block = ''Block1'', size_kb = 50\<rparr>) = 1"
    by code_simp
  show ?thesis
    using h1 h2 h3 second_allocate_orphans_block [OF h1 h2 h3]
    by simp
qed

text \<open>
  C9. The text \<open>get_memory_state\<close> returns has one line for every entry of
  \<open>memory_blocks\<close>, in the order of the dictionary, with the size and the list the
  entry holds at that moment, empty or not; then one line for every entry of
  \<open>allocated_processes\<close>, in the order of that dictionary. The order of the sizes
  in a state reached from a seed is the order of the seed: \<open>allocate\<close> never changes
  that order, and \<open>deallocate\<close> leaves it as it is, but for a bound size that is not
  a key, which it appends as the last key. The order of the processes is the order
  in which they were bound: a successful \<open>allocate\<close> for a process without a binding
  appends it, one for a bound process leaves it where it stands, and \<open>deallocate\<close>
  removes the process and keeps the others in their order.
\<close>

theorem get_memory_state_lists_in_insertion_order:
  "fst (get_memory_state repr_str s) =
      ''Available Memory Blocks:'' @ [newline]
      @ concat (map (\<lambda>(sz, blocks).
                       str_int sz @ '' KB Blocks: '' @ repr_list repr_str blocks @ [newline])
                 (memory_blocks s))
      @ [newline] @ ''Allocated Processes:'' @ [newline]
      @ concat (map (\<lambda>(p, a).
                       ''Process '' @ p @ '': '' @ block a
                         @ '' ('' @ str_int (size_kb a) @ '' KB)'' @ [newline])
                 (allocated_processes s))
   \<and> map fst (memory_blocks (run (init seed) calls)) = map fst seed
   \<and> map fst (memory_blocks (snd (allocate s p sz))) = map fst (memory_blocks s)
   \<and> map fst (memory_blocks (snd (deallocate s p))) =
       (case map_of (allocated_processes s) p of
          None \<Rightarrow> map fst (memory_blocks s)
        | Some a \<Rightarrow>
            if map_of (memory_blocks s) (size_kb a) = None
            then map fst (memory_blocks s) @ [size_kb a]
            else map fst (memory_blocks s))
   \<and> map fst (allocated_processes (snd (allocate s p sz))) =
       (if fst (fst (allocate s p sz)) \<and> map_of (allocated_processes s) p = None
        then map fst (allocated_processes s) @ [p]
        else map fst (allocated_processes s))
   \<and> map fst (allocated_processes (snd (deallocate s p))) =
       removeAll p (map fst (allocated_processes s))"
proof (intro conjI)
  have b: "blocks_line repr_str =
      (\<lambda>(sz, blocks). str_int sz @ '' KB Blocks: '' @ repr_list repr_str blocks @ [newline])"
    by (simp add: fun_eq_iff blocks_line_def)
  have p: "process_line =
      (\<lambda>(p, a). ''Process '' @ p @ '': '' @ block a
                         @ '' ('' @ str_int (size_kb a) @ '' KB)'' @ [newline])"
    by (simp add: fun_eq_iff process_line_def)
  show "fst (get_memory_state repr_str s) =
      ''Available Memory Blocks:'' @ [newline]
      @ concat (map (\<lambda>(sz, blocks).
                       str_int sz @ '' KB Blocks: '' @ repr_list repr_str blocks @ [newline])
                 (memory_blocks s))
      @ [newline] @ ''Allocated Processes:'' @ [newline]
      @ concat (map (\<lambda>(p, a).
                       ''Process '' @ p @ '': '' @ block a
                         @ '' ('' @ str_int (size_kb a) @ '' KB)'' @ [newline])
                 (allocated_processes s))"
    unfolding b [symmetric] p [symmetric]
    by (simp add: get_memory_state_def Let_def foldl_append_lines)
next
  show "map fst (memory_blocks (run (init seed) calls)) = map fst seed"
    using run_keys [OF init_sizes_known, of seed calls] by (simp add: init_def)
next
  show "map fst (memory_blocks (snd (allocate s p sz))) = map fst (memory_blocks s)"
    by (rule allocate_keys)
next
  show "map fst (memory_blocks (snd (deallocate s p))) =
       (case map_of (allocated_processes s) p of
          None \<Rightarrow> map fst (memory_blocks s)
        | Some a \<Rightarrow>
            if map_of (memory_blocks s) (size_kb a) = None
            then map fst (memory_blocks s) @ [size_kb a]
            else map fst (memory_blocks s))"
    by (rule deallocate_keys)
next
  show "map fst (allocated_processes (snd (allocate s p sz))) =
       (if fst (fst (allocate s p sz)) \<and> map_of (allocated_processes s) p = None
        then map fst (allocated_processes s) @ [p]
        else map fst (allocated_processes s))"
    by (rule allocate_processes)
next
  show "map fst (allocated_processes (snd (deallocate s p))) =
       removeAll p (map fst (allocated_processes s))"
    by (rule deallocate_processes)
qed

theorem get_memory_state_lists_in_insertion_order_witness:
  "fst (get_memory_state repr_plain
         (run (init [(50, [''Block1'', ''Block2'']), (100, [''Block3'', ''Block4'']), (200, [''Block5''])])
            [Allocate ''P1'' 200, Allocate ''P2'' 50]))
     = ''Available Memory Blocks:'' @ [newline]
       @ ''50 KB Blocks: ['' @ repr_plain ''Block2'' @ '']'' @ [newline]
       @ ''100 KB Blocks: ['' @ repr_plain ''Block3'' @ '', '' @ repr_plain ''Block4'' @ '']'' @ [newline]
       @ ''200 KB Blocks: []'' @ [newline]
       @ [newline] @ ''Allocated Processes:'' @ [newline]
       @ ''Process P1: Block5 (200 KB)'' @ [newline]
       @ ''Process P2: Block1 (50 KB)'' @ [newline]
   \<and> map fst (memory_blocks
        (run (init [(50, [''Block1'', ''Block2'']), (100, [''Block3'', ''Block4'']), (200, [''Block5''])])
           [Allocate ''P1'' 200, Allocate ''P2'' 50])) = [50, 100, 200]"
proof -
  let ?seed = "[(50::int, [''Block1'', ''Block2'']), (100, [''Block3'', ''Block4'']), (200, [''Block5''])]"
  let ?calls = "[Allocate ''P1'' 200, Allocate ''P2'' 50]"
  have e: "run (init ?seed) ?calls =
      \<lparr>memory_blocks = [(50, [''Block2'']), (100, [''Block3'', ''Block4'']), (200, [])],
       allocated_processes = [(''P1'', \<lparr>block = ''Block5'', size_kb = 200\<rparr>),
                              (''P2'', \<lparr>block = ''Block1'', size_kb = 50\<rparr>)]\<rparr>"
    by code_simp
  have d: "str_int 50 = ''50''" "str_int 100 = ''100''" "str_int 200 = ''200''"
    by code_simp+
  show ?thesis
    using get_memory_state_lists_in_insertion_order [of repr_plain "run (init ?seed) ?calls" ?seed ?calls]
    by (simp add: e d repr_list_def)
qed

end
